theory Spec2Isabelle
  imports Main "HOL-Library.Word"
begin

unbundle bit_operations_syntax

section \<open>Mercury runtime: floating point handling (mercury\_float.h)\<close>

text \<open>
  The header is a family of macros selected by the preprocessor. The build
  configuration is made a value, and every macro becomes a function of it, so
  that one statement covers all the builds.

  A float is modelled by its object representation, the list of the bytes that
  the C object occupies: a claim about "bit-identical" values is a claim about
  these bytes, and every list of \<open>sizeof(MR_Float)\<close> bytes is a representable
  value (all NaN payloads, both zeros and both infinities among them). The
  header never copies these bytes itself: it assigns, passes and returns
  \<open>MR_Float\<close> values, and what such a move does to the bytes is the
  platform's (see \<open>float_move\<close> below).
\<close>

subsection \<open>Build configuration\<close>

text \<open>
  \<open>MR_BOXED_FLOAT_conf\<close> is the setting that \<open>mercury_conf.h\<close> hands to this
  header; the header may still undefine it (line 21). The three sizes are the
  platform's \<open>sizeof(float)\<close>, \<open>sizeof(double)\<close> and \<open>sizeof(MR_Word)\<close>.
  \<open>x87_float_moves\<close> says that the build moves floating-point values through
  the x87 unit, as the i386 builds do.
\<close>

record config =
  MR_USE_SINGLE_PREC_FLOAT :: bool
  MR_BOXED_FLOAT_conf :: bool
  MR_CONSERVATIVE_GC :: bool
  MR_GNUC :: bool
  MR_CLANG :: bool
  MR_SOLARIS :: bool
  STDC_VERSION :: nat
  sizeof_float :: nat
  sizeof_double :: nat
  sizeof_MR_Word :: nat
  big_endian :: bool
  x87_float_moves :: bool

datatype c_type = C_float | C_double

text \<open>Lines 16 to 26: the typedef of \<open>MR_Float\<close> and the \<open>#undef MR_BOXED_FLOAT\<close>.\<close>

definition MR_Float_type :: "config \<Rightarrow> c_type" where
  "MR_Float_type c = (if MR_USE_SINGLE_PREC_FLOAT c then C_float else C_double)"

definition MR_BOXED_FLOAT :: "config \<Rightarrow> bool" where
  "MR_BOXED_FLOAT c =
     (if MR_USE_SINGLE_PREC_FLOAT c then False else MR_BOXED_FLOAT_conf c)"

definition sizeof_MR_Float :: "config \<Rightarrow> nat" where
  "sizeof_MR_Float c =
     (case MR_Float_type c of C_float \<Rightarrow> sizeof_float c | C_double \<Rightarrow> sizeof_double c)"

definition MR_FLT_MIN_PRECISION :: "config \<Rightarrow> nat" where
  "MR_FLT_MIN_PRECISION c = (if MR_USE_SINGLE_PREC_FLOAT c then 7 else 15)"

definition MR_FLT_FMT :: "config \<Rightarrow> string" where
  "MR_FLT_FMT c = (if MR_USE_SINGLE_PREC_FLOAT c then ''%f'' else ''%lf'')"

definition MR_FLT_MAX_PRECISION :: "config \<Rightarrow> nat" where
  "MR_FLT_MAX_PRECISION c = MR_FLT_MIN_PRECISION c + 2"

definition MR_FLOAT_WORDS :: "config \<Rightarrow> nat" where
  "MR_FLOAT_WORDS c =
     (sizeof_MR_Float c + sizeof_MR_Word c - 1) div sizeof_MR_Word c"

subsection \<open>Bytes, words and unions\<close>

type_synonym byte = "8 word"

text \<open>An \<open>MR_Float\<close> is its object representation.\<close>

type_synonym MR_Float = "byte list"

text \<open>
  An \<open>MR_Word\<close> is an unsigned integer; its object representation is the
  \<open>sizeof(MR_Word)\<close> bytes of its value, in the byte order of the platform.
\<close>

type_synonym MR_Word = nat

primrec le_val :: "byte list \<Rightarrow> nat" where
  "le_val [] = 0"
| "le_val (b # bs) = unat b + 256 * le_val bs"

primrec le_bytes :: "nat \<Rightarrow> nat \<Rightarrow> byte list" where
  "le_bytes 0 v = []"
| "le_bytes (Suc n) v = of_nat (v mod 256) # le_bytes n (v div 256)"

definition word_bytes :: "config \<Rightarrow> MR_Word \<Rightarrow> byte list" where
  "word_bytes c w =
     (if big_endian c then rev (le_bytes (sizeof_MR_Word c) w)
      else le_bytes (sizeof_MR_Word c) w)"

definition word_value :: "config \<Rightarrow> byte list \<Rightarrow> MR_Word" where
  "word_value c bs = le_val (if big_endian c then rev bs else bs)"

text \<open>
  A union is a block of bytes in which every member starts at offset 0. A
  fresh automatic union holds indeterminate bytes: \<open>junk\<close> supplies them, and
  the theorems hold for every \<open>junk\<close>. Storing a member overwrites the bytes
  of that member and leaves the others as they were. The member \<open>f\<close> is
  written and read by a move of the float; the words are integers, and their
  bytes are copied as they are.
\<close>

definition uninit :: "(nat \<Rightarrow> byte) \<Rightarrow> nat \<Rightarrow> byte list" where
  "uninit junk n = map junk [0..<n]"

definition store_at :: "nat \<Rightarrow> byte list \<Rightarrow> byte list \<Rightarrow> byte list" where
  "store_at off v u = take off u @ v @ drop (off + length v) u"

definition load_at :: "nat \<Rightarrow> nat \<Rightarrow> byte list \<Rightarrow> byte list" where
  "load_at off n u = take n (drop off u)"

subsection \<open>Bit patterns and IEEE 754 fields\<close>

text \<open>
  The bit pattern of a float as a number (its bytes read in the byte order of
  the platform), and the float with a given bit pattern.
\<close>

definition float_bits :: "config \<Rightarrow> MR_Float \<Rightarrow> nat" where
  "float_bits c f = le_val (if big_endian c then rev f else f)"

definition float_of_bits :: "config \<Rightarrow> nat \<Rightarrow> MR_Float" where
  "float_of_bits c v =
     (if big_endian c then rev (le_bytes (sizeof_MR_Float c) v)
      else le_bytes (sizeof_MR_Float c) v)"

text \<open>The fields of IEEE 754 binary32 and binary64.\<close>

definition mantissa_width :: "c_type \<Rightarrow> nat" where
  "mantissa_width t = (case t of C_float \<Rightarrow> 23 | C_double \<Rightarrow> 52)"

definition exponent_width :: "c_type \<Rightarrow> nat" where
  "exponent_width t = (case t of C_float \<Rightarrow> 8 | C_double \<Rightarrow> 11)"

definition ieee_exponent :: "c_type \<Rightarrow> nat \<Rightarrow> nat" where
  "ieee_exponent t v = (v div 2 ^ mantissa_width t) mod 2 ^ exponent_width t"

definition ieee_mantissa :: "c_type \<Rightarrow> nat \<Rightarrow> nat" where
  "ieee_mantissa t v = v mod 2 ^ mantissa_width t"

definition exponent_all_ones :: "c_type \<Rightarrow> nat \<Rightarrow> bool" where
  "exponent_all_ones t v = (ieee_exponent t v = 2 ^ exponent_width t - 1)"

subsection \<open>Moving a float\<close>

text \<open>
  A typed assignment to an \<open>MR_Float\<close> object, a typed read of one, passing
  an \<open>MR_Float\<close> by value and returning one are moves of a floating-point
  value, not copies of bytes. Where the moves are bit-exact the bytes arrive
  unchanged. Through the x87 unit a signalling NaN (exponent all ones, a
  nonzero mantissa whose top bit is clear) arrives as the quiet NaN with the
  same payload: the top bit of the mantissa is set. Every other value
  arrives unchanged.
\<close>

definition signalling_nan :: "config \<Rightarrow> MR_Float \<Rightarrow> bool" where
  "signalling_nan c f =
     (exponent_all_ones (MR_Float_type c) (float_bits c f)
      \<and> ieee_mantissa (MR_Float_type c) (float_bits c f) \<noteq> 0
      \<and> ieee_mantissa (MR_Float_type c) (float_bits c f)
            < 2 ^ (mantissa_width (MR_Float_type c) - 1))"

definition float_move :: "config \<Rightarrow> MR_Float \<Rightarrow> MR_Float" where
  "float_move c f =
     (if x87_float_moves c \<and> signalling_nan c f
      then float_of_bits c (float_bits c f + 2 ^ (mantissa_width (MR_Float_type c) - 1))
      else f)"

subsection \<open>Word codec, unboxed (lines 157 to 190)\<close>

text \<open>\<open>union MR_Float_Word { MR_Float f; MR_Word w; }\<close>\<close>

definition sizeof_MR_Float_Word :: "config \<Rightarrow> nat" where
  "sizeof_MR_Float_Word c = max (sizeof_MR_Float c) (sizeof_MR_Word c)"

definition Float_Word_set_f :: "config \<Rightarrow> MR_Float \<Rightarrow> byte list \<Rightarrow> byte list" where
  "Float_Word_set_f c f u = store_at 0 (float_move c f) u"



definition Float_Word_get_w :: "config \<Rightarrow> byte list \<Rightarrow> MR_Word" where
  "Float_Word_get_w c u = word_value c (load_at 0 (sizeof_MR_Word c) u)"

text \<open>
  The GNU C and clang branch casts to the union,
  \<open>((union MR_Float_Word)(MR_Float)(f)).w\<close>: a temporary union whose member
  \<open>f\<close> is set.
\<close>

definition MR_float_to_word_cast :: "config \<Rightarrow> (nat \<Rightarrow> byte) \<Rightarrow> MR_Float \<Rightarrow> MR_Word" where
  "MR_float_to_word_cast c junk f =
     Float_Word_get_w c (Float_Word_set_f c f (uninit junk (sizeof_MR_Float_Word c)))"


text \<open>
  The portable branch:
  \<open>{ union MR_Float_Word tmp; tmp.f = f; return tmp.w; }\<close> and
  \<open>{ union MR_Float_Word tmp; tmp.w = w; return tmp.f; }\<close>.
\<close>

definition MR_float_to_word_func :: "config \<Rightarrow> (nat \<Rightarrow> byte) \<Rightarrow> MR_Float \<Rightarrow> MR_Word" where
  "MR_float_to_word_func c junk f =
     (let tmp = uninit junk (sizeof_MR_Float_Word c);
          tmp = Float_Word_set_f c f tmp
      in Float_Word_get_w c tmp)"


definition MR_float_to_word_unboxed :: "config \<Rightarrow> (nat \<Rightarrow> byte) \<Rightarrow> MR_Float \<Rightarrow> MR_Word" where
  "MR_float_to_word_unboxed c junk f =
     (if MR_GNUC c \<or> MR_CLANG c then MR_float_to_word_cast c junk f
      else MR_float_to_word_func c junk f)"


subsection \<open>The heap and the external allocator\<close>

text \<open>
  \<open>MR_hp\<close> is an \<open>MR_Word *\<close>: the code addresses the cell it has just
  allocated as \<open>MR_hp - MR_FLOAT_WORDS\<close>, in units of words. The cursor is
  therefore kept as a number of words, and the cast \<open>(MR_Word) MR_hp\<close> gives
  the byte address, a multiple of \<open>sizeof(MR_Word)\<close> as for every pointer to
  a word. Addresses are natural numbers: running off the end of the address
  space is undefined in C and is not modelled. \<open>mem\<close> is the memory, byte by
  byte, and \<open>requests\<close> records what was asked of the allocator, in order.
\<close>

datatype MR_AllocSiteInfoPtr = MR_ALLOC_SITE_FLOAT | MR_ALLOC_SITE_OTHER nat

record alloc_request =
  req_words :: nat
  req_site :: MR_AllocSiteInfoPtr
  req_atomic :: bool

record heap =
  MR_hp :: nat
  mem :: "nat \<Rightarrow> byte"
  requests :: "alloc_request list"

definition ptr_to_word :: "config \<Rightarrow> nat \<Rightarrow> MR_Word" where
  "ptr_to_word c p = p * sizeof_MR_Word c"

definition store_bytes :: "(nat \<Rightarrow> byte) \<Rightarrow> nat \<Rightarrow> byte list \<Rightarrow> (nat \<Rightarrow> byte)" where
  "store_bytes m a bs =
     (\<lambda>x. if a \<le> x \<and> x < a + length bs then bs ! (x - a) else m x)"


text \<open>
  Modelled from the spec: \<open>MR_hp_alloc_atomic_msg\<close> (\<open>mercury_heap.h\<close> is not
  among the sources). The allocator is external; it provides atomic
  allocation of a number of words for an allocation site and leaves the
  cursor just past the new block, which is what this header relies on when it
  addresses the block as \<open>MR_hp - count\<close>. Where the allocator puts the block
  is its own business: \<open>place\<close> maps the cursor and the number of words to
  the start of the block. The bump allocator of the spec puts it at the
  cursor.
\<close>

definition MR_hp_alloc_atomic_msg ::
  "(nat \<Rightarrow> nat \<Rightarrow> nat) \<Rightarrow> nat \<Rightarrow> MR_AllocSiteInfoPtr \<Rightarrow> heap \<Rightarrow> heap" where
  "MR_hp_alloc_atomic_msg place count site h =
     h\<lparr>MR_hp := place (MR_hp h) count + count,
       requests := requests h @
         [\<lparr>req_words = count, req_site = site, req_atomic = True\<rparr>]\<rparr>"

definition bump :: "nat \<Rightarrow> nat \<Rightarrow> nat" where
  "bump hp count = hp"

subsection \<open>Word codec, boxed (lines 49 to 89)\<close>


text \<open>
  \<open>* (MR_Float *) (void *) p = f\<close>, for a pointer \<open>p\<close> to a word: a typed
  store, so a move of the float.
\<close>

definition store_float :: "config \<Rightarrow> nat \<Rightarrow> MR_Float \<Rightarrow> heap \<Rightarrow> heap" where
  "store_float c p f h =
     h\<lparr>mem := store_bytes (mem h) (ptr_to_word c p) (float_move c f)\<rparr>"

definition MR_float_to_word_conservative ::
  "config \<Rightarrow> (nat \<Rightarrow> nat \<Rightarrow> nat) \<Rightarrow> MR_Float \<Rightarrow> heap \<Rightarrow> MR_Word \<times> heap" where
  "MR_float_to_word_conservative c place f h =
     (let h = MR_hp_alloc_atomic_msg place (MR_FLOAT_WORDS c) MR_ALLOC_SITE_FLOAT h;
          h = store_float c (MR_hp h - MR_FLOAT_WORDS c) f h
      in (ptr_to_word c (MR_hp h - MR_FLOAT_WORDS c), h))"

definition MR_make_hp_float_aligned_precise ::
  "config \<Rightarrow> (nat \<Rightarrow> nat \<Rightarrow> nat) \<Rightarrow> heap \<Rightarrow> heap" where
  "MR_make_hp_float_aligned_precise c place h =
     (if ptr_to_word c (MR_hp h) AND (sizeof_MR_Float c - 1) \<noteq> 0
      then MR_hp_alloc_atomic_msg place 1 MR_ALLOC_SITE_FLOAT h
      else h)"

definition MR_float_to_word_precise ::
  "config \<Rightarrow> (nat \<Rightarrow> nat \<Rightarrow> nat) \<Rightarrow> MR_Float \<Rightarrow> heap \<Rightarrow> MR_Word \<times> heap" where
  "MR_float_to_word_precise c place f h =
     (let h = MR_make_hp_float_aligned_precise c place h;
          h = MR_hp_alloc_atomic_msg place (MR_FLOAT_WORDS c) MR_ALLOC_SITE_FLOAT h;
          h = store_float c (MR_hp h - MR_FLOAT_WORDS c) f h
      in (ptr_to_word c (MR_hp h - MR_FLOAT_WORDS c), h))"

definition MR_float_to_word_boxed ::
  "config \<Rightarrow> (nat \<Rightarrow> nat \<Rightarrow> nat) \<Rightarrow> MR_Float \<Rightarrow> heap \<Rightarrow> MR_Word \<times> heap" where
  "MR_float_to_word_boxed c place f h =
     (if MR_CONSERVATIVE_GC c then MR_float_to_word_conservative c place f h
      else MR_float_to_word_precise c place f h)"

subsection \<open>The macros as the build selects them\<close>

text \<open>
  \<open>MR_make_hp_float_aligned\<close> is \<open>((void)0)\<close> under conservative collection
  (line 61) and in unboxed builds (line 161).
\<close>

definition MR_make_hp_float_aligned ::
  "config \<Rightarrow> (nat \<Rightarrow> nat \<Rightarrow> nat) \<Rightarrow> heap \<Rightarrow> heap" where
  "MR_make_hp_float_aligned c place h =
     (if MR_BOXED_FLOAT c then
        (if MR_CONSERVATIVE_GC c then h
         else MR_make_hp_float_aligned_precise c place h)
      else h)"

definition MR_float_to_word ::
  "config \<Rightarrow> (nat \<Rightarrow> nat \<Rightarrow> nat) \<Rightarrow> (nat \<Rightarrow> byte) \<Rightarrow> MR_Float \<Rightarrow> heap \<Rightarrow> MR_Word \<times> heap" where
  "MR_float_to_word c place junk f h =
     (if MR_BOXED_FLOAT c then MR_float_to_word_boxed c place f h
      else (MR_float_to_word_unboxed c junk f, h))"


text \<open>
  \<open>MR_float_const\<close>. With GNU C in a boxed build it is
  \<open>({ static const MR_Float d = f; (MR_Word) &d; })\<close>: the value is the address
  \<open>d\<close> of the static cell of that occurrence of the macro, which the program
  image holds initialised; nothing is executed. Otherwise it is
  \<open>MR_float_to_word(f)\<close> (lines 88 and 168).
\<close>

definition MR_float_const ::
  "config \<Rightarrow> (nat \<Rightarrow> nat \<Rightarrow> nat) \<Rightarrow> (nat \<Rightarrow> byte) \<Rightarrow> MR_Word \<Rightarrow> MR_Float \<Rightarrow> heap \<Rightarrow> MR_Word \<times> heap" where
  "MR_float_const c place junk d f h =
     (if MR_BOXED_FLOAT c then
        (if MR_GNUC c then (d, h)
         else MR_float_to_word c place junk f h)
      else MR_float_to_word c place junk f h)"

subsection \<open>Dword codec (lines 91 to 155)\<close>

text \<open>
  The whole codec stands under \<open>#ifdef MR_BOXED_FLOAT\<close>: in an unboxed build
  its macros and functions do not exist, and a use of them does not compile.
  Indexing \<open>w\<close> outside \<open>0..1\<close> is undefined in C. Both are error values here.
\<close>

datatype error = Not_compiled | Out_of_bounds | Buffer_overflow

text \<open>\<open>union MR_Float_Dword { MR_Float f; MR_Word w[2]; }\<close>\<close>

definition sizeof_MR_Float_Dword :: "config \<Rightarrow> nat" where
  "sizeof_MR_Float_Dword c = max (sizeof_MR_Float c) (2 * sizeof_MR_Word c)"

definition Float_Dword_set_f :: "config \<Rightarrow> MR_Float \<Rightarrow> byte list \<Rightarrow> byte list" where
  "Float_Dword_set_f c f u = store_at 0 (float_move c f) u"

definition Float_Dword_get_f :: "config \<Rightarrow> byte list \<Rightarrow> MR_Float" where
  "Float_Dword_get_f c u = float_move c (load_at 0 (sizeof_MR_Float c) u)"

definition Float_Dword_set_w :: "config \<Rightarrow> nat \<Rightarrow> MR_Word \<Rightarrow> byte list \<Rightarrow> byte list" where
  "Float_Dword_set_w c i w u = store_at (i * sizeof_MR_Word c) (word_bytes c w) u"

definition Float_Dword_get_w :: "config \<Rightarrow> nat \<Rightarrow> byte list \<Rightarrow> MR_Word" where
  "Float_Dword_get_w c i u =
     word_value c (load_at (i * sizeof_MR_Word c) (sizeof_MR_Word c) u)"

text \<open>GNU C and clang: \<open>(((union MR_Float_Dword) (MR_Float) (F)).w[(I)])\<close>.\<close>

definition MR_float_word_bits_cast :: "config \<Rightarrow> (nat \<Rightarrow> byte) \<Rightarrow> MR_Float \<Rightarrow> nat \<Rightarrow> MR_Word" where
  "MR_float_word_bits_cast c junk f i =
     Float_Dword_get_w c i (Float_Dword_set_f c f (uninit junk (sizeof_MR_Float_Dword c)))"

text \<open>Otherwise: \<open>{ union MR_Float_Dword __ffdw; __ffdw.f = f; return __ffdw.w[n]; }\<close>.\<close>

definition MR_float_word_bits_func :: "config \<Rightarrow> (nat \<Rightarrow> byte) \<Rightarrow> MR_Float \<Rightarrow> nat \<Rightarrow> MR_Word" where
  "MR_float_word_bits_func c junk f n =
     (let ffdw = uninit junk (sizeof_MR_Float_Dword c);
          ffdw = Float_Dword_set_f c f ffdw
      in Float_Dword_get_w c n ffdw)"

definition MR_float_word_bits :: "config \<Rightarrow> (nat \<Rightarrow> byte) \<Rightarrow> MR_Float \<Rightarrow> int \<Rightarrow> error + MR_Word" where
  "MR_float_word_bits c junk f n =
     (if \<not> MR_BOXED_FLOAT c then Inl Not_compiled
      else if n < 0 \<or> 2 \<le> n then Inl Out_of_bounds
      else if MR_GNUC c \<or> MR_CLANG c then Inr (MR_float_word_bits_cast c junk f (nat n))
      else Inr (MR_float_word_bits_func c junk f (nat n)))"

text \<open>
  \<open>MR_float_from_dword\<close>: the statement expression of GNU C and clang and
  the function \<open>MR_float_from_dword_func\<close> have the same body,
  \<open>__ffdw.w[0] = w0; __ffdw.w[1] = w1; __ffdw.f\<close>.
\<close>

definition MR_float_from_dword_func :: "config \<Rightarrow> (nat \<Rightarrow> byte) \<Rightarrow> MR_Word \<Rightarrow> MR_Word \<Rightarrow> MR_Float" where
  "MR_float_from_dword_func c junk w0 w1 =
     (let ffdw = uninit junk (sizeof_MR_Float_Dword c);
          ffdw = Float_Dword_set_w c 0 w0 ffdw;
          ffdw = Float_Dword_set_w c 1 w1 ffdw
      in Float_Dword_get_f c ffdw)"

definition MR_float_from_dword :: "config \<Rightarrow> (nat \<Rightarrow> byte) \<Rightarrow> MR_Word \<Rightarrow> MR_Word \<Rightarrow> error + MR_Float" where
  "MR_float_from_dword c junk w0 w1 =
     (if \<not> MR_BOXED_FLOAT c then Inl Not_compiled
      else if MR_GNUC c \<or> MR_CLANG c then
        Inr (let ffdw = uninit junk (sizeof_MR_Float_Dword c);
                 ffdw = Float_Dword_set_w c 0 w0 ffdw;
                 ffdw = Float_Dword_set_w c 1 w1 ffdw
             in Float_Dword_get_f c ffdw)
      else Inr (MR_float_from_dword_func c junk w0 w1))"


subsection \<open>Classifier (lines 213 to 251)\<close>

text \<open>
  Modelled from the spec: the primitives of the C library (\<open>isnan\<close>, \<open>isnanf\<close>,
  \<open>isinf\<close>, \<open>isinff\<close>, \<open>isfinite\<close>) and the portable functions
  \<open>MR_is_nan_func\<close> and \<open>MR_is_infinite_func\<close> of \<open>mercury_float.c\<close>, none of
  which is among the sources. The spec gives the portable tests: exponent all
  ones with a nonzero mantissa for NaN, exponent all ones with a zero mantissa
  for infinity. The primitives are taken to decide the same on their own type.
\<close>

definition isnan :: "config \<Rightarrow> MR_Float \<Rightarrow> bool" where
  "isnan c f =
     (exponent_all_ones C_double (float_bits c f) \<and> ieee_mantissa C_double (float_bits c f) \<noteq> 0)"

definition isnanf :: "config \<Rightarrow> MR_Float \<Rightarrow> bool" where
  "isnanf c f =
     (exponent_all_ones C_float (float_bits c f) \<and> ieee_mantissa C_float (float_bits c f) \<noteq> 0)"

definition isinf :: "config \<Rightarrow> MR_Float \<Rightarrow> bool" where
  "isinf c f =
     (exponent_all_ones C_double (float_bits c f) \<and> ieee_mantissa C_double (float_bits c f) = 0)"

definition isinff :: "config \<Rightarrow> MR_Float \<Rightarrow> bool" where
  "isinff c f =
     (exponent_all_ones C_float (float_bits c f) \<and> ieee_mantissa C_float (float_bits c f) = 0)"

definition isfinite :: "config \<Rightarrow> MR_Float \<Rightarrow> bool" where
  "isfinite c f = (\<not> exponent_all_ones (MR_Float_type c) (float_bits c f))"

definition MR_is_nan_func :: "config \<Rightarrow> MR_Float \<Rightarrow> bool" where
  "MR_is_nan_func c f =
     (exponent_all_ones (MR_Float_type c) (float_bits c f)
      \<and> ieee_mantissa (MR_Float_type c) (float_bits c f) \<noteq> 0)"

definition MR_is_infinite_func :: "config \<Rightarrow> MR_Float \<Rightarrow> bool" where
  "MR_is_infinite_func c f =
     (exponent_all_ones (MR_Float_type c) (float_bits c f)
      \<and> ieee_mantissa (MR_Float_type c) (float_bits c f) = 0)"

text \<open>The selection of lines 217 to 248, as written.\<close>

definition MR_is_nan :: "config \<Rightarrow> MR_Float \<Rightarrow> bool" where
  "MR_is_nan c f =
     (if STDC_VERSION c \<ge> 199901 then
        (if MR_USE_SINGLE_PREC_FLOAT c then isnanf c f else isnan c f)
      else MR_is_nan_func c f)"

definition MR_is_infinite :: "config \<Rightarrow> MR_Float \<Rightarrow> bool" where
  "MR_is_infinite c f =
     (if STDC_VERSION c \<ge> 199901 \<and> \<not> MR_SOLARIS c then
        (if MR_USE_SINGLE_PREC_FLOAT c then isinff c f else isinf c f)
      else MR_is_infinite_func c f)"

definition MR_is_finite :: "config \<Rightarrow> MR_Float \<Rightarrow> bool" where
  "MR_is_finite c f =
     (if STDC_VERSION c \<ge> 199901 \<and> \<not> MR_SOLARIS c then isfinite c f
      else (\<not> MR_is_infinite c f \<and> \<not> MR_is_nan c f))"

subsection \<open>Textual codec (lines 192 to 209)\<close>

definition MR_SPRINTF_FLOAT_BUF_SIZE :: nat where
  "MR_SPRINTF_FLOAT_BUF_SIZE = 80"

text \<open>
  The value of a finite float, exactly, as a fraction of two natural numbers
  and a sign: the significand (with its hidden bit unless the exponent field
  is zero) times a power of two.
\<close>

definition sign_bit :: "c_type \<Rightarrow> nat \<Rightarrow> bool" where
  "sign_bit t v = ((v div 2 ^ (mantissa_width t + exponent_width t)) mod 2 = 1)"

definition exponent_bias :: "c_type \<Rightarrow> nat" where
  "exponent_bias t = 2 ^ (exponent_width t - 1) - 1"

definition significand :: "c_type \<Rightarrow> nat \<Rightarrow> nat" where
  "significand t v =
     (if ieee_exponent t v = 0 then ieee_mantissa t v
      else 2 ^ mantissa_width t + ieee_mantissa t v)"

definition binary_exponent :: "c_type \<Rightarrow> nat \<Rightarrow> nat" where
  "binary_exponent t v = (if ieee_exponent t v = 0 then 1 else ieee_exponent t v)"

definition numerator :: "c_type \<Rightarrow> nat \<Rightarrow> nat" where
  "numerator t v =
     (if exponent_bias t + mantissa_width t \<le> binary_exponent t v
      then significand t v * 2 ^ (binary_exponent t v - (exponent_bias t + mantissa_width t))
      else significand t v)"

definition denominator :: "c_type \<Rightarrow> nat \<Rightarrow> nat" where
  "denominator t v =
     (if exponent_bias t + mantissa_width t \<le> binary_exponent t v then 1
      else 2 ^ (exponent_bias t + mantissa_width t - binary_exponent t v))"

text \<open>Decimal digits.\<close>

definition digit_char :: "nat \<Rightarrow> char" where
  "digit_char n = ''0123456789'' ! (n mod 10)"

fun decimal :: "nat \<Rightarrow> string" where
  "decimal n = (if n < 10 then [digit_char n] else decimal (n div 10) @ [digit_char n])"

definition digits_string :: "nat \<Rightarrow> nat \<Rightarrow> string" where
  "digits_string P q = map (\<lambda>i. digit_char (q div 10 ^ (P - 1 - i))) [0..<P]"

text \<open>
  The decimal exponent of a positive fraction \<open>n / d\<close>: the \<open>X\<close> with
  \<open>10 ^ X \<le> n / d < 10 ^ (X + 1)\<close>. For a fraction below one,
  \<open>shifts n d\<close> is the number of times it must be multiplied by ten to
  reach one.
\<close>

function shifts :: "nat \<Rightarrow> nat \<Rightarrow> nat" where
  "shifts n d = (if n = 0 \<or> d \<le> n then 0 else Suc (shifts (10 * n) d))"
  by pat_completeness auto
termination
  by (relation "measure (\<lambda>(n, d). d - n)") auto

declare decimal.simps [simp del] shifts.simps [simp del]

definition decimal_exponent :: "nat \<Rightarrow> nat \<Rightarrow> int" where
  "decimal_exponent n d =
     (if d \<le> n then int (length (decimal (n div d))) - 1 else - int (shifts n d))"

text \<open>
  The fraction scaled to \<open>P\<close> significant digits and rounded to the nearest
  integer, ties to even; when the rounding carries to \<open>10 ^ P\<close> the exponent
  goes up by one.
\<close>

definition round_half_even :: "nat \<Rightarrow> nat \<Rightarrow> nat" where
  "round_half_even a b =
     (let q = a div b; r = a mod b
      in if b < 2 * r then q + 1
         else if 2 * r = b then (if odd q then q + 1 else q)
         else q)"

definition scaled :: "nat \<Rightarrow> nat \<Rightarrow> nat \<Rightarrow> int \<Rightarrow> nat" where
  "scaled P n d X =
     (if X \<le> int P - 1 then round_half_even (n * 10 ^ nat (int P - 1 - X)) d
      else round_half_even n (d * 10 ^ nat (X - (int P - 1))))"

definition to_decimal :: "nat \<Rightarrow> nat \<Rightarrow> nat \<Rightarrow> nat \<times> int" where
  "to_decimal P n d =
     (if n = 0 then (0, 0)
      else let X = decimal_exponent n d; q = scaled P n d X
           in if q = 10 ^ P then (10 ^ (P - 1), X + 1) else (q, X))"

text \<open>
  The text of the C format \<open>%#.*g\<close>, the format that the comment of line 195
  names, for \<open>P\<close> significant digits \<open>q\<close> and the decimal exponent \<open>X\<close>:
  the style of \<open>%e\<close>, with an exponent of at least two digits, when
  \<open>X < -4\<close> or \<open>X \<ge> P\<close>, and the style of \<open>%f\<close> otherwise; with \<open>#\<close>
  the decimal point and the trailing zeros are kept.
\<close>

definition exponent_text :: "int \<Rightarrow> string" where
  "exponent_text X =
     (if X < 0 then ''-'' else ''+'') @
     (if nat \<bar>X\<bar> < 10 then ''0'' else []) @ decimal (nat \<bar>X\<bar>)"

definition format_g :: "nat \<Rightarrow> bool \<Rightarrow> nat \<Rightarrow> int \<Rightarrow> string" where
  "format_g P negative q X =
     (let ds = digits_string P q;
          sgn = (if negative then ''-'' else [])
      in if X < - 4 \<or> int P \<le> X then
           sgn @ take 1 ds @ ''.'' @ drop 1 ds @ ''e'' @ exponent_text X
         else if X < 0 then
           sgn @ ''0.'' @ replicate (nat (- X - 1)) (CHR ''0'') @ ds
         else
           sgn @ take (nat X + 1) ds @ ''.'' @ drop (nat X + 1) ds)"

text \<open>
  Modelled from the spec: \<open>MR_sprintf_float\<close> (\<open>mercury_float.c\<close> is not among
  the sources; the header only declares it). The spec asks for a decimal
  representation with at least \<open>MinDecimalDigits\<close> significant digits, as
  many as the value needs to read back exactly, and never more than
  \<open>MaxDecimalDigits\<close>; NaN and the infinities are literal tokens (the spec
  does not name them). \<open>needed\<close> is the number of digits at which the value
  reads back, whatever it is. The digits are those of the exact value of the
  float.
\<close>

definition MR_sprintf_float :: "config \<Rightarrow> (MR_Float \<Rightarrow> nat) \<Rightarrow> MR_Float \<Rightarrow> string" where
  "MR_sprintf_float c needed f =
     (let t = MR_Float_type c;
          v = float_bits c f;
          p = max (MR_FLT_MIN_PRECISION c) (min (MR_FLT_MAX_PRECISION c) (needed f))
      in if MR_is_nan c f then ''nan''
         else if MR_is_infinite c f then
           (if sign_bit t v then ''-infinity'' else ''infinity'')
         else format_g p (sign_bit t v)
                (fst (to_decimal p (numerator t v) (denominator t v)))
                (snd (to_decimal p (numerator t v) (denominator t v))))"

text \<open>
  \<open>MR_float_to_string\<close>: \<open>char buf[MR_SPRINTF_FLOAT_BUF_SIZE]\<close>, filled by
  \<open>MR_sprintf_float\<close> and then copied. The text and its terminating NUL must
  fit the buffer; writing past it is undefined in C, an error value here.
\<close>

definition MR_float_to_string ::
  "config \<Rightarrow> (MR_Float \<Rightarrow> nat) \<Rightarrow> MR_Float \<Rightarrow> error + string" where
  "MR_float_to_string c needed f =
     (let buf = MR_sprintf_float c needed f
      in if length buf + 1 \<le> MR_SPRINTF_FLOAT_BUF_SIZE then Inr buf
         else Inl Buffer_overflow)"

subsection \<open>Example builds\<close>

text \<open>
  Two builds on which the statements below are exercised: doubles boxed on a
  little-endian machine with 32-bit words and x87 floating point (i386),
  collected precisely, and doubles unboxed on a little-endian machine with
  64-bit words. \<open>heap0\<close> is a heap whose cursor stands at an odd word;
  \<open>two_and_a_half\<close> is the double 2.5 (\<open>0x4004000000000000\<close>) and
  \<open>snan1\<close> the signalling NaN \<open>0x7FF0000000000001\<close> and \<open>qnan1\<close> the
  quiet NaN \<open>0x7FF8000000000001\<close> with the same payload;
  \<open>hundred_thousandth\<close> is the double nearest to 0.00001
  (\<open>0x3EE4F8B588E368F1\<close>). All are in little-endian order.
\<close>

definition boxed32 :: config where
  "boxed32 =
     \<lparr>MR_USE_SINGLE_PREC_FLOAT = False, MR_BOXED_FLOAT_conf = True,
      MR_CONSERVATIVE_GC = False, MR_GNUC = False, MR_CLANG = False,
      MR_SOLARIS = False, STDC_VERSION = 199901,
      sizeof_float = 4, sizeof_double = 8, sizeof_MR_Word = 4, big_endian = False,
      x87_float_moves = True\<rparr>"


definition heap0 :: heap where
  "heap0 = \<lparr>MR_hp = 1025, mem = (\<lambda>a. 0), requests = []\<rparr>"

definition two_and_a_half :: MR_Float where
  "two_and_a_half = [0, 0, 0, 0, 0, 0, 4, 64]"



definition hundred_thousandth :: MR_Float where
  "hundred_thousandth = [241, 104, 227, 136, 181, 248, 228, 62]"

section \<open>Properties\<close>

subsection \<open>Bytes and words\<close>

lemma length_le_bytes: "length (le_bytes n v) = n"
  by (induction n arbitrary: v) simp_all


lemma le_val_le_bytes: "le_val (le_bytes n v) = v mod 256 ^ n"
proof (induction n arbitrary: v)
  case 0
  show ?case by simp
next
  case (Suc n)
  have "unat (of_nat (v mod 256) :: byte) = v mod 256"
    by (simp add: unat_of_nat)
  then show ?case
    using Suc.IH [of "v div 256"]
    by (simp add: mod_mult2_eq)
qed

lemma length_word_bytes: "length (word_bytes c w) = sizeof_MR_Word c"
  by (simp add: word_bytes_def length_le_bytes)




subsection \<open>Moving a float\<close>



subsection \<open>Unions and memory\<close>






subsection \<open>Alignment arithmetic and the boxed paths\<close>

lemma and_pow2_minus_1: "(n::nat) AND (2 ^ k - 1) = n mod 2 ^ k"
proof -
  have "n AND mask k = take_bit k n"
    by (simp add: take_bit_eq_mask)
  then show ?thesis
    by (simp add: mask_eq_exp_minus_1 take_bit_eq_mod)
qed

lemma pad_aligns:
  fixes F W p :: nat
  assumes d: "F dvd 2 * W" and n: "\<not> F dvd p * W"
  shows "F dvd (p + 1) * W"
proof -
  have "odd p"
  proof
    assume "even p"
    then obtain q where "p = 2 * q" by (rule evenE)
    then have "p * W = q * (2 * W)" by simp
    moreover have "F dvd q * (2 * W)" using d by (rule dvd_mult)
    ultimately have "F dvd p * W" by (simp only:)
    with n show False by simp
  qed
  then have "even (p + 1)" by simp
  then obtain q where "p + 1 = 2 * q" by (rule evenE)
  then have "(p + 1) * W = q * (2 * W)" by simp
  moreover have "F dvd q * (2 * W)" using d by (rule dvd_mult)
  ultimately show ?thesis by (simp only:)
qed

lemma pow2_le_dvd:
  fixes k j :: nat
  assumes "(2::nat) ^ k \<le> 2 * 2 ^ j"
  shows "(2::nat) ^ k dvd 2 * 2 ^ j"
proof -
  have "(2::nat) ^ k \<le> 2 ^ Suc j" using assms by simp
  then have "k \<le> Suc j" by (rule power_le_imp_le_exp [rotated]) simp
  then have "(2::nat) ^ k dvd 2 ^ Suc j" by (rule le_imp_power_dvd)
  then show ?thesis by simp
qed

lemma aligned_after_precise:
  assumes F: "sizeof_MR_Float c = 2 ^ k"
    and W: "sizeof_MR_Word c = 2 ^ j"
    and le: "sizeof_MR_Float c \<le> 2 * sizeof_MR_Word c"
  shows "sizeof_MR_Float c dvd
           ptr_to_word c (MR_hp (MR_make_hp_float_aligned_precise c bump h))"
proof (cases "ptr_to_word c (MR_hp h) AND (sizeof_MR_Float c - 1) \<noteq> 0")
  case True
  then have "\<not> sizeof_MR_Float c dvd MR_hp h * sizeof_MR_Word c"
    unfolding F and_pow2_minus_1 ptr_to_word_def by (simp add: dvd_eq_mod_eq_0)
  moreover have "sizeof_MR_Float c dvd 2 * sizeof_MR_Word c"
    using le pow2_le_dvd [of k j] by (simp add: F W)
  ultimately have "sizeof_MR_Float c dvd (MR_hp h + 1) * sizeof_MR_Word c"
    by (rule pad_aligns [rotated])
  then show ?thesis
    using True
    by (simp add: MR_make_hp_float_aligned_precise_def MR_hp_alloc_atomic_msg_def
        bump_def ptr_to_word_def)
next
  case False
  then have "sizeof_MR_Float c dvd ptr_to_word c (MR_hp h)"
    unfolding F and_pow2_minus_1 by (simp add: dvd_eq_mod_eq_0)
  then show ?thesis
    using False by (simp add: MR_make_hp_float_aligned_precise_def)
qed

lemma make_aligned_boxed_precise:
  "MR_BOXED_FLOAT c \<Longrightarrow> \<not> MR_CONSERVATIVE_GC c \<Longrightarrow>
   MR_make_hp_float_aligned c place h = MR_make_hp_float_aligned_precise c place h"
  by (simp add: MR_make_hp_float_aligned_def)

lemma precise_pads_at_most_one_word:
  "MR_hp (MR_make_hp_float_aligned_precise c bump h) \<le> MR_hp h + 1"
  by (simp add: MR_make_hp_float_aligned_precise_def MR_hp_alloc_atomic_msg_def bump_def)

lemma boxed_conservative_unfold:
  "MR_float_to_word_conservative c place f h =
     (ptr_to_word c (place (MR_hp h) (MR_FLOAT_WORDS c)),
      \<lparr>MR_hp = place (MR_hp h) (MR_FLOAT_WORDS c) + MR_FLOAT_WORDS c,
       mem = store_bytes (mem h) (ptr_to_word c (place (MR_hp h) (MR_FLOAT_WORDS c)))
               (float_move c f),
       requests = requests h @
         [\<lparr>req_words = MR_FLOAT_WORDS c, req_site = MR_ALLOC_SITE_FLOAT, req_atomic = True\<rparr>]\<rparr>)"
  by (simp add: MR_float_to_word_conservative_def MR_hp_alloc_atomic_msg_def
      store_float_def Let_def)

lemma boxed_precise_unfold:
  "MR_float_to_word_precise c place f h =
     MR_float_to_word_conservative c place f (MR_make_hp_float_aligned_precise c place h)"
  by (simp add: MR_float_to_word_conservative_def MR_float_to_word_precise_def Let_def)

lemma boxed_requests_grow:
  "length (requests h) < length (requests (snd (MR_float_to_word_boxed c place f h)))"
  by (simp add: MR_float_to_word_boxed_def boxed_precise_unfold boxed_conservative_unfold
      MR_make_hp_float_aligned_precise_def MR_hp_alloc_atomic_msg_def)

subsection \<open>The example builds\<close>

lemma boxed32_boxed: "MR_BOXED_FLOAT boxed32"
  by (simp add: MR_BOXED_FLOAT_def boxed32_def)

lemma boxed32_precise: "\<not> MR_CONSERVATIVE_GC boxed32"
  by (simp add: boxed32_def)

lemma boxed32_float: "sizeof_MR_Float boxed32 = 2 ^ 3"
  by (simp add: sizeof_MR_Float_def MR_Float_type_def boxed32_def)

lemma boxed32_word: "sizeof_MR_Word boxed32 = 2 ^ 2"
  by (simp add: boxed32_def)

lemma boxed32_fits: "sizeof_MR_Float boxed32 \<le> 2 * sizeof_MR_Word boxed32"
  by (simp add: sizeof_MR_Float_def MR_Float_type_def boxed32_def)


lemma heap0_misaligned:
  "ptr_to_word boxed32 (MR_hp heap0) mod sizeof_MR_Float boxed32 \<noteq> 0"
  by (simp add: ptr_to_word_def heap0_def sizeof_MR_Float_def MR_Float_type_def boxed32_def)

lemma boxed32_double: "MR_Float_type boxed32 = C_double"
  by (simp add: MR_Float_type_def boxed32_def)

lemma bits_two_and_a_half: "float_bits boxed32 two_and_a_half = 0x4004000000000000"
  by (simp add: float_bits_def boxed32_def two_and_a_half_def)









subsection \<open>Word codec\<close>





subsection \<open>Heap boxing\<close>

text \<open>
  C3. In a boxed build with precise collection and the bump allocator, the
  address that \<open>MR_float_to_word\<close> returns is a multiple of
  \<open>sizeof(MR_Float)\<close>, for every float and every heap. The sizes are those the
  comment of line 67 assumes, with a word whose size is a power of two as on
  every 32-bit and 64-bit machine.
\<close>

theorem boxed_float_address_aligned:
  assumes boxed: "MR_BOXED_FLOAT c" and precise: "\<not> MR_CONSERVATIVE_GC c"
    and F: "sizeof_MR_Float c = 2 ^ k"
    and W: "sizeof_MR_Word c = 2 ^ j"
    and le: "sizeof_MR_Float c \<le> 2 * sizeof_MR_Word c"
  shows "fst (MR_float_to_word c bump junk f h) mod sizeof_MR_Float c = 0"
proof -
  have "fst (MR_float_to_word c bump junk f h) =
        ptr_to_word c (MR_hp (MR_make_hp_float_aligned_precise c bump h))"
    using boxed precise
    by (simp add: MR_float_to_word_def MR_float_to_word_boxed_def
        MR_float_to_word_precise_def Let_def store_float_def MR_hp_alloc_atomic_msg_def
        bump_def)
  then show ?thesis
    using aligned_after_precise [OF F W le, of h] by (simp add: dvd_eq_mod_eq_0)
qed

theorem boxed_float_address_aligned_witness:
  "fst (MR_float_to_word boxed32 bump (\<lambda>i. 0) two_and_a_half heap0)
     mod sizeof_MR_Float boxed32 = 0"
  using boxed_float_address_aligned
    [OF boxed32_boxed boxed32_precise boxed32_float boxed32_word boxed32_fits] .



text \<open>
  C5, as the code has it. Under conservative collection
  \<open>MR_make_hp_float_aligned\<close> does nothing and \<open>MR_float_to_word\<close> makes its
  single request, whatever the cursor: neither a test nor a padding word.
  The test and the one-word padding request belong to precise collection.
\<close>

theorem padding_only_under_precise_collection:
  assumes boxed: "MR_BOXED_FLOAT c" and F: "sizeof_MR_Float c = 2 ^ k"
  shows "(if MR_CONSERVATIVE_GC c then
            MR_make_hp_float_aligned c place h = h
            \<and> requests (snd (MR_float_to_word c place junk f h)) = requests h @
                [\<lparr>req_words = MR_FLOAT_WORDS c, req_site = MR_ALLOC_SITE_FLOAT,
                  req_atomic = True\<rparr>]
          else if ptr_to_word c (MR_hp h) mod sizeof_MR_Float c = 0 then
            MR_make_hp_float_aligned c place h = h
          else
            MR_make_hp_float_aligned c place h =
              MR_hp_alloc_atomic_msg place 1 MR_ALLOC_SITE_FLOAT h
            \<and> requests (MR_make_hp_float_aligned c place h) = requests h @
                [\<lparr>req_words = 1, req_site = MR_ALLOC_SITE_FLOAT, req_atomic = True\<rparr>])"
proof -
  have test: "(ptr_to_word c (MR_hp h) AND (sizeof_MR_Float c - 1) \<noteq> 0) =
              (ptr_to_word c (MR_hp h) mod sizeof_MR_Float c \<noteq> 0)"
    unfolding F and_pow2_minus_1 ..
  show ?thesis
    using boxed test
    by (simp add: MR_make_hp_float_aligned_def MR_make_hp_float_aligned_precise_def
        MR_float_to_word_def MR_float_to_word_boxed_def boxed_conservative_unfold
        MR_hp_alloc_atomic_msg_def)
qed

theorem padding_only_under_precise_collection_witness:
  "MR_make_hp_float_aligned boxed32 bump heap0 =
     MR_hp_alloc_atomic_msg bump 1 MR_ALLOC_SITE_FLOAT heap0
   \<and> requests (MR_make_hp_float_aligned boxed32 bump heap0) = requests heap0 @
       [\<lparr>req_words = 1, req_site = MR_ALLOC_SITE_FLOAT, req_atomic = True\<rparr>]"
  using padding_only_under_precise_collection [OF boxed32_boxed boxed32_float,
      of bump heap0]
  unfolding if_not_P [OF boxed32_precise] if_not_P [OF heap0_misaligned] .

text \<open>
  C5 as the claim states it fails: a boxed build with conservative collection
  and a cursor at address 4100, which is 4 modulo 8. The alignment macro
  leaves the heap as it is and the only request is the one for the cell.
\<close>

theorem conservative_padding_counterexample:
  "MR_BOXED_FLOAT (boxed32\<lparr>MR_CONSERVATIVE_GC := True\<rparr>)
   \<and> MR_CONSERVATIVE_GC (boxed32\<lparr>MR_CONSERVATIVE_GC := True\<rparr>)
   \<and> ptr_to_word (boxed32\<lparr>MR_CONSERVATIVE_GC := True\<rparr>) (MR_hp heap0)
        mod sizeof_MR_Float (boxed32\<lparr>MR_CONSERVATIVE_GC := True\<rparr>) = 4
   \<and> MR_make_hp_float_aligned (boxed32\<lparr>MR_CONSERVATIVE_GC := True\<rparr>) bump heap0 = heap0
   \<and> requests (snd (MR_float_to_word (boxed32\<lparr>MR_CONSERVATIVE_GC := True\<rparr>) bump
         (\<lambda>i. 0) two_and_a_half heap0)) =
       [\<lparr>req_words = 2, req_site = MR_ALLOC_SITE_FLOAT, req_atomic = True\<rparr>]"
  by (simp add: boxed32_def heap0_def MR_BOXED_FLOAT_def sizeof_MR_Float_def
      MR_Float_type_def MR_make_hp_float_aligned_def ptr_to_word_def MR_float_to_word_def
      MR_float_to_word_boxed_def boxed_conservative_unfold MR_FLOAT_WORDS_def)

text \<open>
  C10. The alignment step of precise collection. When \<open>sizeof(MR_Float)\<close> is
  a power of two and at most twice \<open>sizeof(MR_Word)\<close>, the cursor is a
  multiple of \<open>sizeof(MR_Float)\<close> after \<open>MR_make_hp_float_aligned\<close>, and at
  most one word was consumed. The word size is a power of two, as on every
  machine the runtime is built for. Without the precondition the step does
  not align: with 16-byte floats on 4-byte words (a power of two, but more
  than two words), and with 12-byte floats on 8-byte words (at most two
  words, but not a power of two), there are cursors that stay misaligned.
\<close>

theorem make_hp_float_aligned_precondition:
  assumes boxed: "MR_BOXED_FLOAT c" and precise: "\<not> MR_CONSERVATIVE_GC c"
    and F: "sizeof_MR_Float c = 2 ^ k"
    and le: "sizeof_MR_Float c \<le> 2 * sizeof_MR_Word c"
    and W: "sizeof_MR_Word c = 2 ^ j"
  shows "ptr_to_word c (MR_hp (MR_make_hp_float_aligned c bump h)) mod sizeof_MR_Float c = 0
    \<and> MR_hp (MR_make_hp_float_aligned c bump h) \<le> MR_hp h + 1
    \<and> (\<exists>c' h'. MR_BOXED_FLOAT c' \<and> \<not> MR_CONSERVATIVE_GC c'
          \<and> sizeof_MR_Word c' = 2 ^ 2 \<and> sizeof_MR_Float c' = 2 ^ 4
          \<and> ptr_to_word c' (MR_hp (MR_make_hp_float_aligned c' bump h'))
                mod sizeof_MR_Float c' \<noteq> 0)
    \<and> (\<exists>c' h'. MR_BOXED_FLOAT c' \<and> \<not> MR_CONSERVATIVE_GC c'
          \<and> sizeof_MR_Word c' = 2 ^ 3 \<and> sizeof_MR_Float c' = 12
          \<and> ptr_to_word c' (MR_hp (MR_make_hp_float_aligned c' bump h'))
                mod sizeof_MR_Float c' \<noteq> 0)"
proof (intro conjI)
  show "ptr_to_word c (MR_hp (MR_make_hp_float_aligned c bump h)) mod sizeof_MR_Float c = 0"
    using aligned_after_precise [OF F W le, of h]
    by (simp add: make_aligned_boxed_precise [OF boxed precise] dvd_eq_mod_eq_0)
  show "MR_hp (MR_make_hp_float_aligned c bump h) \<le> MR_hp h + 1"
    unfolding make_aligned_boxed_precise [OF boxed precise]
    by (rule precise_pads_at_most_one_word)
  let ?c = "boxed32\<lparr>sizeof_double := 16\<rparr>"
  have "MR_BOXED_FLOAT ?c \<and> \<not> MR_CONSERVATIVE_GC ?c
          \<and> sizeof_MR_Word ?c = 2 ^ 2 \<and> sizeof_MR_Float ?c = 2 ^ 4
          \<and> ptr_to_word ?c (MR_hp (MR_make_hp_float_aligned ?c bump heap0))
                mod sizeof_MR_Float ?c \<noteq> 0"
    by (simp add: boxed32_def heap0_def MR_BOXED_FLOAT_def sizeof_MR_Float_def
        MR_Float_type_def MR_make_hp_float_aligned_def MR_make_hp_float_aligned_precise_def
        MR_hp_alloc_atomic_msg_def bump_def ptr_to_word_def)
  then show "\<exists>c' h'. MR_BOXED_FLOAT c' \<and> \<not> MR_CONSERVATIVE_GC c'
          \<and> sizeof_MR_Word c' = 2 ^ 2 \<and> sizeof_MR_Float c' = 2 ^ 4
          \<and> ptr_to_word c' (MR_hp (MR_make_hp_float_aligned c' bump h'))
                mod sizeof_MR_Float c' \<noteq> 0"
    by blast
  let ?d = "boxed32\<lparr>sizeof_double := 12, sizeof_MR_Word := 8\<rparr>"
  let ?h = "heap0\<lparr>MR_hp := 1\<rparr>"
  have "MR_BOXED_FLOAT ?d \<and> \<not> MR_CONSERVATIVE_GC ?d
          \<and> sizeof_MR_Word ?d = 2 ^ 3 \<and> sizeof_MR_Float ?d = 12
          \<and> ptr_to_word ?d (MR_hp (MR_make_hp_float_aligned ?d bump ?h))
                mod sizeof_MR_Float ?d \<noteq> 0"
    by (simp add: boxed32_def heap0_def MR_BOXED_FLOAT_def sizeof_MR_Float_def
        MR_Float_type_def MR_make_hp_float_aligned_def MR_make_hp_float_aligned_precise_def
        MR_hp_alloc_atomic_msg_def bump_def ptr_to_word_def)
  then show "\<exists>c' h'. MR_BOXED_FLOAT c' \<and> \<not> MR_CONSERVATIVE_GC c'
          \<and> sizeof_MR_Word c' = 2 ^ 3 \<and> sizeof_MR_Float c' = 12
          \<and> ptr_to_word c' (MR_hp (MR_make_hp_float_aligned c' bump h'))
                mod sizeof_MR_Float c' \<noteq> 0"
    by blast
qed

theorem make_hp_float_aligned_precondition_witness:
  "ptr_to_word boxed32 (MR_hp (MR_make_hp_float_aligned boxed32 bump heap0))
     mod sizeof_MR_Float boxed32 = 0
   \<and> MR_hp (MR_make_hp_float_aligned boxed32 bump heap0) \<le> MR_hp heap0 + 1"
  using make_hp_float_aligned_precondition
    [OF boxed32_boxed boxed32_precise boxed32_float boxed32_fits boxed32_word, of heap0]
  by blast

subsection \<open>Float constants\<close>

text \<open>
  C8, as the code has it. In a boxed build under GNU C, \<open>MR_float_const\<close> is
  the address of the static cell and the heap is untouched, on every
  evaluation. In a boxed build without \<open>MR_GNUC\<close> it is \<open>MR_float_to_word\<close>,
  and every evaluation sends at least one more request to the allocator.
\<close>

theorem float_const_static_only_with_gnuc:
  assumes boxed: "MR_BOXED_FLOAT c"
  shows "(if MR_GNUC c then MR_float_const c place junk d f h = (d, h)
          else MR_float_const c place junk d f h = MR_float_to_word c place junk f h
               \<and> length (requests h) <
                   length (requests (snd (MR_float_const c place junk d f h))))"
  using boxed boxed_requests_grow [of h c place f]
  by (simp add: MR_float_const_def MR_float_to_word_def)

theorem float_const_static_only_with_gnuc_witness:
  "MR_float_const boxed32 bump (\<lambda>i. 0) 0 two_and_a_half heap0 =
     MR_float_to_word boxed32 bump (\<lambda>i. 0) two_and_a_half heap0
   \<and> length (requests heap0) <
       length (requests (snd (MR_float_const boxed32 bump (\<lambda>i. 0) 0 two_and_a_half heap0)))
   \<and> MR_float_const (boxed32\<lparr>MR_GNUC := True\<rparr>) bump (\<lambda>i. 0) 0 two_and_a_half heap0 =
       (0, heap0)"
proof -
  have g: "MR_BOXED_FLOAT (boxed32\<lparr>MR_GNUC := True\<rparr>)"
    by (simp add: MR_BOXED_FLOAT_def boxed32_def)
  have n: "\<not> MR_GNUC boxed32"
    by (simp add: boxed32_def)
  have y: "MR_GNUC (boxed32\<lparr>MR_GNUC := True\<rparr>)"
    by simp
  show ?thesis
    using float_const_static_only_with_gnuc [OF boxed32_boxed, of bump "\<lambda>i. 0" 0
        two_and_a_half heap0]
      float_const_static_only_with_gnuc [OF g, of bump "\<lambda>i. 0" 0 two_and_a_half heap0]
    unfolding if_not_P [OF n] if_P [OF y]
    by blast
qed

text \<open>
  C8 as the claim states it fails: in a boxed build without \<open>MR_GNUC\<close>, two
  evaluations for the same literal return two addresses, 4104 and 4112, and
  the allocator has received a padding request and two cell requests.
\<close>

theorem float_const_counterexample:
  "MR_BOXED_FLOAT boxed32
   \<and> fst (MR_float_const boxed32 bump (\<lambda>i. 0) 0 two_and_a_half heap0) = 4104
   \<and> fst (MR_float_const boxed32 bump (\<lambda>i. 0) 0 two_and_a_half
        (snd (MR_float_const boxed32 bump (\<lambda>i. 0) 0 two_and_a_half heap0))) = 4112
   \<and> map req_words (requests (snd (MR_float_const boxed32 bump (\<lambda>i. 0) 0 two_and_a_half
        (snd (MR_float_const boxed32 bump (\<lambda>i. 0) 0 two_and_a_half heap0))))) = [1, 2, 2]"
  by (simp add: boxed32_def heap0_def MR_BOXED_FLOAT_def sizeof_MR_Float_def
      MR_Float_type_def MR_float_const_def ptr_to_word_def MR_float_to_word_def
      MR_float_to_word_boxed_def boxed_precise_unfold boxed_conservative_unfold
      MR_make_hp_float_aligned_precise_def MR_hp_alloc_atomic_msg_def
      MR_FLOAT_WORDS_def bump_def)

subsection \<open>Configuration\<close>

text \<open>
  C9. Boxed mode implies double precision. Single precision switches boxing
  off whatever the configured flag, so in a boxed build \<open>MR_Float\<close> is
  \<open>double\<close>; and wherever the Dword codec is compiled, \<open>MR_Float\<close> is \<open>double\<close>.
\<close>

theorem boxed_implies_double:
  "(MR_USE_SINGLE_PREC_FLOAT c \<longrightarrow> \<not> MR_BOXED_FLOAT c)
   \<and> \<not> MR_BOXED_FLOAT (c\<lparr>MR_USE_SINGLE_PREC_FLOAT := True, MR_BOXED_FLOAT_conf := b\<rparr>)
   \<and> (MR_BOXED_FLOAT c \<longrightarrow>
        MR_Float_type c = C_double \<and> sizeof_MR_Float c = sizeof_double c)
   \<and> (MR_float_word_bits c junk f n \<noteq> Inl Not_compiled \<longrightarrow> MR_Float_type c = C_double)
   \<and> (MR_float_from_dword c junk w0 w1 \<noteq> Inl Not_compiled \<longrightarrow> MR_Float_type c = C_double)"
  by (simp add: MR_BOXED_FLOAT_def MR_Float_type_def sizeof_MR_Float_def
      MR_float_word_bits_def MR_float_from_dword_def)

theorem boxed_implies_double_witness:
  "\<not> MR_BOXED_FLOAT (boxed32\<lparr>MR_USE_SINGLE_PREC_FLOAT := True\<rparr>)
   \<and> MR_Float_type boxed32 = C_double
   \<and> sizeof_MR_Float boxed32 = sizeof_double boxed32"
proof -
  have s: "MR_USE_SINGLE_PREC_FLOAT (boxed32\<lparr>MR_USE_SINGLE_PREC_FLOAT := True\<rparr>)"
    by simp
  show ?thesis
    using boxed_implies_double [of "boxed32\<lparr>MR_USE_SINGLE_PREC_FLOAT := True\<rparr>"] s
      boxed_implies_double [of boxed32] boxed32_boxed
    by blast
qed

subsection \<open>Dword codec\<close>







subsection \<open>Classifier\<close>

lemma float_bits_of_bits: "float_bits c (float_of_bits c v) = v mod 256 ^ sizeof_MR_Float c"
  by (simp add: float_bits_def float_of_bits_def le_val_le_bytes)

lemma is_nan_fields:
  "MR_is_nan c f =
     (exponent_all_ones (MR_Float_type c) (float_bits c f)
      \<and> ieee_mantissa (MR_Float_type c) (float_bits c f) \<noteq> 0)"
  by (simp add: MR_is_nan_def isnan_def isnanf_def MR_is_nan_func_def MR_Float_type_def)

lemma is_infinite_fields:
  "MR_is_infinite c f =
     (exponent_all_ones (MR_Float_type c) (float_bits c f)
      \<and> ieee_mantissa (MR_Float_type c) (float_bits c f) = 0)"
  by (simp add: MR_is_infinite_def isinf_def isinff_def MR_is_infinite_func_def
      MR_Float_type_def)

lemma is_finite_fields:
  "MR_is_finite c f = (\<not> exponent_all_ones (MR_Float_type c) (float_bits c f))"
  by (auto simp add: MR_is_finite_def isfinite_def is_nan_fields is_infinite_fields)

lemma fields_double:
  "exponent_all_ones C_double v = (v div 4503599627370496 mod 2048 = 2047)"
  "ieee_mantissa C_double v = v mod 4503599627370496"
  by (simp_all add: exponent_all_ones_def ieee_exponent_def ieee_mantissa_def
      mantissa_width_def exponent_width_def)

lemma fields_float:
  "exponent_all_ones C_float v = (v div 8388608 mod 256 = 255)"
  "ieee_mantissa C_float v = v mod 8388608"
  by (simp_all add: exponent_all_ones_def ieee_exponent_def ieee_mantissa_def
      mantissa_width_def exponent_width_def)

text \<open>
  C6. On every selection of lines 217 to 248, the classifiers give the IEEE
  754 answers at the representative values: both zeros are finite, not NaN
  and not infinite; positive infinity is infinite, not finite and not NaN;
  the quiet NaNs of either sign are NaN, not finite and not infinite; the
  largest finite value is finite. This for doubles (8 bytes) and for single
  precision (4 bytes). Where \<open>isfinite\<close> is not used, \<open>MR_is_finite\<close> is the
  negation of "infinite or NaN", for every float.
\<close>

theorem classifier_representative_values:
  "(\<not> MR_USE_SINGLE_PREC_FLOAT c \<and> sizeof_double c = 8 \<longrightarrow>
      MR_is_finite c (float_of_bits c 0)
      \<and> \<not> MR_is_nan c (float_of_bits c 0)
      \<and> \<not> MR_is_infinite c (float_of_bits c 0)
      \<and> MR_is_finite c (float_of_bits c 0x8000000000000000)
      \<and> \<not> MR_is_nan c (float_of_bits c 0x8000000000000000)
      \<and> \<not> MR_is_infinite c (float_of_bits c 0x8000000000000000)
      \<and> MR_is_infinite c (float_of_bits c 0x7FF0000000000000)
      \<and> \<not> MR_is_finite c (float_of_bits c 0x7FF0000000000000)
      \<and> \<not> MR_is_nan c (float_of_bits c 0x7FF0000000000000)
      \<and> MR_is_nan c (float_of_bits c 0x7FF8000000000000)
      \<and> \<not> MR_is_finite c (float_of_bits c 0x7FF8000000000000)
      \<and> \<not> MR_is_infinite c (float_of_bits c 0x7FF8000000000000)
      \<and> MR_is_nan c (float_of_bits c 0xFFF8000000000000)
      \<and> \<not> MR_is_finite c (float_of_bits c 0xFFF8000000000000)
      \<and> \<not> MR_is_infinite c (float_of_bits c 0xFFF8000000000000)
      \<and> MR_is_finite c (float_of_bits c 0x7FEFFFFFFFFFFFFF))
   \<and> (MR_USE_SINGLE_PREC_FLOAT c \<and> sizeof_float c = 4 \<longrightarrow>
      MR_is_finite c (float_of_bits c 0)
      \<and> \<not> MR_is_nan c (float_of_bits c 0)
      \<and> \<not> MR_is_infinite c (float_of_bits c 0)
      \<and> MR_is_finite c (float_of_bits c 0x80000000)
      \<and> \<not> MR_is_nan c (float_of_bits c 0x80000000)
      \<and> \<not> MR_is_infinite c (float_of_bits c 0x80000000)
      \<and> MR_is_infinite c (float_of_bits c 0x7F800000)
      \<and> \<not> MR_is_finite c (float_of_bits c 0x7F800000)
      \<and> \<not> MR_is_nan c (float_of_bits c 0x7F800000)
      \<and> MR_is_nan c (float_of_bits c 0x7FC00000)
      \<and> \<not> MR_is_finite c (float_of_bits c 0x7FC00000)
      \<and> \<not> MR_is_infinite c (float_of_bits c 0x7FC00000)
      \<and> MR_is_nan c (float_of_bits c 0xFFC00000)
      \<and> \<not> MR_is_finite c (float_of_bits c 0xFFC00000)
      \<and> \<not> MR_is_infinite c (float_of_bits c 0xFFC00000)
      \<and> MR_is_finite c (float_of_bits c 0x7F7FFFFF))
   \<and> (\<not> (STDC_VERSION c \<ge> 199901 \<and> \<not> MR_SOLARIS c) \<longrightarrow>
        MR_is_finite c f = (\<not> (MR_is_infinite c f \<or> MR_is_nan c f)))"
proof (intro conjI impI)
  assume "\<not> (STDC_VERSION c \<ge> 199901 \<and> \<not> MR_SOLARIS c)"
  then show "MR_is_finite c f = (\<not> (MR_is_infinite c f \<or> MR_is_nan c f))"
    unfolding MR_is_finite_def by auto
qed (simp_all add: is_nan_fields is_infinite_fields is_finite_fields float_bits_of_bits
      MR_Float_type_def sizeof_MR_Float_def fields_double fields_float)

theorem classifier_representative_values_witness:
  "MR_is_finite boxed32 (float_of_bits boxed32 0)
   \<and> MR_is_infinite boxed32 (float_of_bits boxed32 0x7FF0000000000000)
   \<and> MR_is_nan boxed32 (float_of_bits boxed32 0x7FF8000000000000)
   \<and> MR_is_finite boxed32 (float_of_bits boxed32 0x7FEFFFFFFFFFFFFF)
   \<and> MR_is_nan (boxed32\<lparr>MR_USE_SINGLE_PREC_FLOAT := True, STDC_VERSION := 0\<rparr>)
        (float_of_bits (boxed32\<lparr>MR_USE_SINGLE_PREC_FLOAT := True, STDC_VERSION := 0\<rparr>) 0x7FC00000)
   \<and> MR_is_finite (boxed32\<lparr>MR_USE_SINGLE_PREC_FLOAT := True, STDC_VERSION := 0\<rparr>) two_and_a_half =
      (\<not> (MR_is_infinite (boxed32\<lparr>MR_USE_SINGLE_PREC_FLOAT := True, STDC_VERSION := 0\<rparr>) two_and_a_half
          \<or> MR_is_nan (boxed32\<lparr>MR_USE_SINGLE_PREC_FLOAT := True, STDC_VERSION := 0\<rparr>) two_and_a_half))"
proof -
  let ?s = "boxed32\<lparr>MR_USE_SINGLE_PREC_FLOAT := True, STDC_VERSION := 0\<rparr>"
  have d: "\<not> MR_USE_SINGLE_PREC_FLOAT boxed32 \<and> sizeof_double boxed32 = 8"
    by (simp add: boxed32_def)
  have s: "MR_USE_SINGLE_PREC_FLOAT ?s \<and> sizeof_float ?s = 4"
    by (simp add: boxed32_def)
  have o: "\<not> (STDC_VERSION ?s \<ge> 199901 \<and> \<not> MR_SOLARIS ?s)"
    by simp
  show ?thesis
    using classifier_representative_values [of boxed32] d
      classifier_representative_values [of ?s two_and_a_half] s o
    by blast
qed

subsection \<open>Textual codec\<close>

lemma length_digits_string: "length (digits_string P q) = P"
  by (simp add: digits_string_def)

lemma decimal_nonempty: "0 < length (decimal n)"
  by (subst decimal.simps) simp

lemma length_decimal: "n < 10 ^ k \<Longrightarrow> 0 < k \<Longrightarrow> length (decimal n) \<le> k"
proof (induction k arbitrary: n)
  case 0
  then show ?case by simp
next
  case (Suc k)
  show ?case
  proof (cases "n < 10")
    case True
    then show ?thesis by (subst decimal.simps) simp
  next
    case False
    have k: "0 < k"
    proof (rule ccontr)
      assume "\<not> 0 < k"
      then have "k = 0" by simp
      with Suc.prems False show False by simp
    qed
    have "n div 10 < 10 ^ k"
      using Suc.prems(1) by (simp add: less_mult_imp_div_less mult.commute)
    then have "length (decimal (n div 10)) \<le> k"
      using k by (rule Suc.IH)
    then show ?thesis
      using False by (subst decimal.simps) simp
  qed
qed

lemma shifts_le: "0 < n \<Longrightarrow> d \<le> n * 10 ^ k \<Longrightarrow> shifts n d \<le> k"
proof (induction k arbitrary: n)
  case 0
  then show ?case by (subst shifts.simps) simp
next
  case (Suc k)
  show ?case
  proof (cases "d \<le> n")
    case True
    then show ?thesis by (subst shifts.simps) simp
  next
    case False
    have "d \<le> (10 * n) * 10 ^ k"
      using Suc.prems(2) by (simp add: mult.assoc mult.left_commute)
    moreover have "0 < 10 * n"
      using Suc.prems(1) by simp
    ultimately have "shifts (10 * n) d \<le> k"
      by (rule Suc.IH [rotated])
    then show ?thesis
      using False Suc.prems(1) by (subst shifts.simps) simp
  qed
qed

lemma length_exponent_text:
  assumes "\<bar>X\<bar> < 10000"
  shows "length (exponent_text X) \<le> 5"
proof -
  have "nat \<bar>X\<bar> < 10 ^ 4"
    using assms by simp
  then have four: "length (decimal (nat \<bar>X\<bar>)) \<le> 4"
    by (rule length_decimal) simp
  have one: "nat \<bar>X\<bar> < 10 \<Longrightarrow> length (decimal (nat \<bar>X\<bar>)) = 1"
    by (subst decimal.simps) simp
  show ?thesis
    using four one by (auto simp add: exponent_text_def)
qed

lemma length_format_g:
  assumes "\<bar>X\<bar> < 10000" and "0 < P"
  shows "length (format_g P negative q X) \<le> P + 8"
proof -
  have e: "length (exponent_text X) \<le> 5"
    using assms(1) by (rule length_exponent_text)
  have ds: "length (digits_string P q) = P"
    by (rule length_digits_string)
  show ?thesis
  proof (cases "X < - 4 \<or> int P \<le> X")
    case True
    then show ?thesis
      using e ds assms(2) by (simp add: format_g_def Let_def)
  next
    case False
    show ?thesis
    proof (cases "X < 0")
      case True
      then have "nat (- X - 1) \<le> 3"
        using False by simp
      then show ?thesis
        using False True ds by (simp add: format_g_def Let_def)
    next
      case nonneg: False
      have "min P (nat X + 1) + (P - (nat X + 1)) \<le> P"
        by simp
      then show ?thesis
        using False nonneg ds by (simp add: format_g_def Let_def)
    qed
  qed
qed

lemma to_decimal_exponent:
  assumes n: "n < 10 ^ a" and d: "d \<le> 10 ^ b" and a: "a \<le> 9999" and b: "b \<le> 9999"
  shows "\<bar>snd (to_decimal P n d)\<bar> < 10000"
proof (cases "n = 0")
  case True
  then show ?thesis by (simp add: to_decimal_def)
next
  case False
  have a0: "0 < a"
  proof (rule ccontr)
    assume "\<not> 0 < a"
    then have "a = 0" by simp
    with n False show False by simp
  qed
  have X: "- int b \<le> decimal_exponent n d \<and> decimal_exponent n d < int a"
  proof (cases "d \<le> n")
    case True
    have "n div d \<le> n"
      by (rule div_le_dividend)
    then have "n div d < 10 ^ a"
      using n by (rule le_less_trans)
    then have "length (decimal (n div d)) \<le> a"
      using a0 by (rule length_decimal)
    then have hi: "int (length (decimal (n div d))) \<le> int a"
      by simp
    have "1 \<le> length (decimal (n div d))"
      using decimal_nonempty [of "n div d"] by (simp only: One_nat_def Suc_le_eq)
    then have lo: "1 \<le> int (length (decimal (n div d)))"
      by linarith
    have "decimal_exponent n d = int (length (decimal (n div d))) - 1"
      using True by (simp add: decimal_exponent_def)
    then show ?thesis
      using hi lo by linarith
  next
    case nle: False
    have pos: "0 < n" using False by simp
    have "d \<le> 1 * 10 ^ b" using d by simp
    also have "\<dots> \<le> n * 10 ^ b"
      using pos by (intro mult_right_mono) simp_all
    finally have "shifts n d \<le> b"
      using pos by (intro shifts_le)
    moreover have "decimal_exponent n d = - int (shifts n d)"
      using nle by (simp add: decimal_exponent_def)
    ultimately show ?thesis
      using a0 by linarith
  qed
  have "snd (to_decimal P n d) = decimal_exponent n d
        \<or> snd (to_decimal P n d) = decimal_exponent n d + 1"
    using False by (simp add: to_decimal_def Let_def)
  then show ?thesis
    using X a b by auto
qed

lemma significand_less: "significand t v < 2 ^ (mantissa_width t + 1)"
proof -
  have "ieee_mantissa t v < 2 ^ mantissa_width t"
    by (simp add: ieee_mantissa_def)
  then show ?thesis
    by (simp add: significand_def)
qed

lemma binary_exponent_le: "binary_exponent t v \<le> 2 ^ exponent_width t"
proof -
  have "ieee_exponent t v < 2 ^ exponent_width t"
    by (simp add: ieee_exponent_def)
  then show ?thesis
    by (simp add: binary_exponent_def)
qed

lemma two_le_ten: "(2::nat) ^ k \<le> 10 ^ k"
  by (rule power_mono) simp_all

lemma numerator_less:
  "numerator t v < 10 ^ (mantissa_width t + 1 + 2 ^ exponent_width t)"
proof -
  let ?e = "binary_exponent t v - (exponent_bias t + mantissa_width t)"
  have "?e \<le> 2 ^ exponent_width t"
    using binary_exponent_le [of t v] by simp
  then have p: "(2::nat) ^ ?e \<le> 2 ^ (2 ^ exponent_width t)"
    by (intro power_increasing) simp_all
  have "numerator t v \<le> significand t v * 2 ^ (2 ^ exponent_width t)"
  proof (cases "exponent_bias t + mantissa_width t \<le> binary_exponent t v")
    case True
    then show ?thesis
      using p by (simp add: numerator_def)
  next
    case False
    then show ?thesis
      by (simp add: numerator_def)
  qed
  also have "\<dots> < 2 ^ (mantissa_width t + 1) * 2 ^ (2 ^ exponent_width t)"
    using significand_less [of t v] by (intro mult_strict_right_mono) simp_all
  also have "\<dots> = 2 ^ (mantissa_width t + 1 + 2 ^ exponent_width t)"
    by (simp add: power_add)
  also have "\<dots> \<le> 10 ^ (mantissa_width t + 1 + 2 ^ exponent_width t)"
    by (rule two_le_ten)
  finally show ?thesis .
qed

lemma denominator_le:
  "denominator t v \<le> 10 ^ (exponent_bias t + mantissa_width t)"
proof -
  have "denominator t v \<le> 2 ^ (exponent_bias t + mantissa_width t)"
    by (simp add: denominator_def)
  also have "\<dots> \<le> 10 ^ (exponent_bias t + mantissa_width t)"
    by (rule two_le_ten)
  finally show ?thesis .
qed

lemma field_widths:
  "mantissa_width t + 1 + 2 ^ exponent_width t \<le> 9999"
  "exponent_bias t + mantissa_width t \<le> 9999"
  by (cases t; simp add: mantissa_width_def exponent_width_def exponent_bias_def)+

lemma precision_bounds:
  "0 < max (MR_FLT_MIN_PRECISION c) (min (MR_FLT_MAX_PRECISION c) k)"
  "max (MR_FLT_MIN_PRECISION c) (min (MR_FLT_MAX_PRECISION c) k) \<le> 17"
  by (auto simp add: MR_FLT_MIN_PRECISION_def MR_FLT_MAX_PRECISION_def)

lemma length_sprintf_float: "length (MR_sprintf_float c needed f) \<le> 25"
proof -
  define t where "t = MR_Float_type c"
  define v where "v = float_bits c f"
  define p where "p = max (MR_FLT_MIN_PRECISION c) (min (MR_FLT_MAX_PRECISION c) (needed f))"
  have X: "\<bar>snd (to_decimal p (numerator t v) (denominator t v))\<bar> < 10000"
    using numerator_less denominator_le field_widths by (rule to_decimal_exponent)
  have p0: "0 < p" and p17: "p \<le> 17"
    unfolding p_def by (rule precision_bounds)+
  have "length (format_g p (sign_bit t v)
          (fst (to_decimal p (numerator t v) (denominator t v)))
          (snd (to_decimal p (numerator t v) (denominator t v)))) \<le> p + 8"
    using X p0 by (rule length_format_g)
  then have "length (format_g p (sign_bit t v)
          (fst (to_decimal p (numerator t v) (denominator t v)))
          (snd (to_decimal p (numerator t v) (denominator t v)))) \<le> 25"
    using p17 by simp
  then show ?thesis
    by (simp add: MR_sprintf_float_def Let_def t_def [symmetric] v_def [symmetric]
        p_def [symmetric])
qed

text \<open>
  The text of 2.5 and of 0.00001 at 15 digits, step by step: the two styles
  of the format.
\<close>

lemma upt_numeral_0: "[0..<numeral n] = 0 # [Suc 0..<numeral n]"
  by (simp add: upt_rec)

lemma upt_Suc_numeral:
  "[Suc i..<numeral n] =
     (if Suc i < numeral n then Suc i # [Suc (Suc i)..<numeral n] else [])"
  by (simp add: upt_rec)

lemma boxed32_precision:
  "max (MR_FLT_MIN_PRECISION boxed32) (min (MR_FLT_MAX_PRECISION boxed32) 0) = 15"
  by (simp add: MR_FLT_MIN_PRECISION_def MR_FLT_MAX_PRECISION_def boxed32_def)

lemma two_and_a_half_fraction:
  "numerator C_double 0x4004000000000000 = 5629499534213120"
  "denominator C_double 0x4004000000000000 = 2251799813685248"
  "sign_bit C_double 0x4004000000000000 = False"
  by (simp_all add: numerator_def denominator_def significand_def binary_exponent_def
      exponent_bias_def ieee_exponent_def ieee_mantissa_def mantissa_width_def
      exponent_width_def sign_bit_def)

lemma two_and_a_half_decimal:
  "to_decimal 15 5629499534213120 2251799813685248 = (250000000000000, 0)"
  by (simp add: to_decimal_def decimal_exponent_def scaled_def round_half_even_def Let_def
      decimal.simps)

lemma two_and_a_half_format: "format_g 15 False 250000000000000 0 = ''2.50000000000000''"
  by (simp add: format_g_def digits_string_def digit_char_def Let_def upt_numeral_0
      upt_Suc_numeral)

lemma two_and_a_half_text:
  "MR_sprintf_float boxed32 (\<lambda>g. 0) two_and_a_half = ''2.50000000000000''"
proof -
  have "\<not> MR_is_nan boxed32 two_and_a_half" "\<not> MR_is_infinite boxed32 two_and_a_half"
    by (simp_all add: is_nan_fields is_infinite_fields bits_two_and_a_half boxed32_double
        fields_double)
  then show ?thesis
    unfolding MR_sprintf_float_def Let_def bits_two_and_a_half boxed32_double
      boxed32_precision two_and_a_half_fraction two_and_a_half_decimal fst_conv snd_conv
      two_and_a_half_format
    by simp
qed

lemma bits_hundred_thousandth:
  "float_bits boxed32 hundred_thousandth = 0x3EE4F8B588E368F1"
  by (simp add: float_bits_def boxed32_def hundred_thousandth_def)

lemma hundred_thousandth_fraction:
  "numerator C_double 0x3EE4F8B588E368F1 = 5902958103587057"
  "denominator C_double 0x3EE4F8B588E368F1 = 590295810358705651712"
  "sign_bit C_double 0x3EE4F8B588E368F1 = False"
  by (simp_all add: numerator_def denominator_def significand_def binary_exponent_def
      exponent_bias_def ieee_exponent_def ieee_mantissa_def mantissa_width_def
      exponent_width_def sign_bit_def)

lemma hundred_thousandth_shifts: "shifts 5902958103587057 590295810358705651712 = 5"
  by (simp add: shifts.simps)

lemma hundred_thousandth_decimal:
  "to_decimal 15 5902958103587057 590295810358705651712 = (100000000000000, - 5)"
  by (simp add: to_decimal_def decimal_exponent_def scaled_def round_half_even_def Let_def
      hundred_thousandth_shifts)

lemma hundred_thousandth_format:
  "format_g 15 False 100000000000000 (- 5) = ''1.00000000000000e-05''"
  by (simp add: format_g_def digits_string_def digit_char_def Let_def upt_numeral_0
      upt_Suc_numeral exponent_text_def decimal.simps)

lemma hundred_thousandth_text:
  "MR_sprintf_float boxed32 (\<lambda>g. 0) hundred_thousandth = ''1.00000000000000e-05''"
proof -
  have "\<not> MR_is_nan boxed32 hundred_thousandth"
    "\<not> MR_is_infinite boxed32 hundred_thousandth"
    by (simp_all add: is_nan_fields is_infinite_fields bits_hundred_thousandth
        boxed32_double fields_double)
  then show ?thesis
    unfolding MR_sprintf_float_def Let_def bits_hundred_thousandth boxed32_double
      boxed32_precision hundred_thousandth_fraction hundred_thousandth_decimal
      fst_conv snd_conv hundred_thousandth_format
    by simp
qed

text \<open>
  C7. The text that \<open>MR_sprintf_float\<close> produces, with its terminating NUL,
  fits the buffer of \<open>MR_SPRINTF_FLOAT_BUF_SIZE\<close> characters that
  \<open>MR_float_to_string\<close> gives it, for every float and whatever number of
  digits the value needs to read back: the number of digits is at most
  \<open>MR_FLT_MAX_PRECISION\<close>, 17, the decimal exponent of a float has at most
  four digits, and so the text has at most 25 characters.
\<close>

theorem sprintf_float_fits_buffer:
  "length (MR_sprintf_float c needed f) + 1 \<le> MR_SPRINTF_FLOAT_BUF_SIZE
   \<and> MR_float_to_string c needed f = Inr (MR_sprintf_float c needed f)"
proof -
  have "length (MR_sprintf_float c needed f) + 1 \<le> MR_SPRINTF_FLOAT_BUF_SIZE"
    using length_sprintf_float [of c needed f] by (simp add: MR_SPRINTF_FLOAT_BUF_SIZE_def)
  then show ?thesis
    by (simp add: MR_float_to_string_def Let_def)
qed

theorem sprintf_float_fits_buffer_witness:
  "MR_sprintf_float boxed32 (\<lambda>g. 0) two_and_a_half = ''2.50000000000000''
   \<and> length (MR_sprintf_float boxed32 (\<lambda>g. 0) two_and_a_half) + 1
        \<le> MR_SPRINTF_FLOAT_BUF_SIZE
   \<and> MR_float_to_string boxed32 (\<lambda>g. 0) two_and_a_half = Inr ''2.50000000000000''
   \<and> MR_float_to_string boxed32 (\<lambda>g. 0) hundred_thousandth =
        Inr ''1.00000000000000e-05''"
  using sprintf_float_fits_buffer [of boxed32 "\<lambda>g. 0" two_and_a_half]
    sprintf_float_fits_buffer [of boxed32 "\<lambda>g. 0" hundred_thousandth]
  unfolding two_and_a_half_text hundred_thousandth_text by simp

end
